theory Spec2Isabelle
  imports Main
begin

section \<open>AOI defect outcome classification\<close>

subsection \<open>Data model\<close>

text \<open>
  A spreadsheet or dataframe cell. The exports hold text and whole numbers; an empty
  cell is pandas' \<open>NaN\<close>. Floating-point cells are not represented.
\<close>

datatype cell = NaN | Str string | Num int

text \<open>
  The three columns that identify a pad-defect combination. They are the grouping key
  of the loop collapser and the primary key of the \<open>defects\<close> table.
\<close>

record key_cols =
  SerialNumber :: cell
  Ref_Id :: cell
  DefectCode :: cell

text \<open>
  One row of the raw export, one per inspection loop. Only the columns the collapser
  groups by are kept; the metadata columns play no part in the counts.
\<close>

record raw_row = key_cols +
  ReworkStatus :: cell

text \<open>
  One row of the collapsed table that \<open>collapse_loops\<close> (and steps 2 and 3 of
  \<open>aoi_classify.main\<close>) hand to the classifier: the key and the three disposition
  counts. The counts are Python integers. The columns that \<open>unstack\<close> makes for other
  \<open>ReworkStatus\<close> values are not carried into this record: no classifier reads them.
\<close>

record collapsed_row = key_cols +
  False_call :: int
  Overridden :: int
  Reworkable :: int

text \<open>The same row once the \<open>Outcome\<close> column has been added.\<close>

record outcome_row = collapsed_row +
  Outcome :: string

subsection \<open>\<open>aoi_classify.classify\<close>\<close>

text \<open>
  \<^verbatim>\<open>
  def classify(row):
      if row["False call"] > 0: return "False"
      if row["Reworkable"] == 0 and row["Overridden"] > 0:
          return "Fixed from previously caught"
      if row["Reworkable"] > 0 and row["Overridden"] == 0: return "Suspect"
      if row["Reworkable"] > 0 and row["Overridden"] > 0: return "Real"
      return "None"
  \<close>
\<close>

definition classify :: "'a collapsed_row_scheme \<Rightarrow> string" where
  "classify row =
     (if False_call row > 0 then ''False''
      else if Reworkable row = 0 \<and> Overridden row > 0 then ''Fixed from previously caught''
      else if Reworkable row > 0 \<and> Overridden row = 0 then ''Suspect''
      else if Reworkable row > 0 \<and> Overridden row > 0 then ''Real''
      else ''None'')"

subsection \<open>\<open>aoi_defect_status.assign_outcome\<close>\<close>

text \<open>
  \<open>numpy.select\<close> at one position of the arrays: the choice of the first condition that
  holds, the default when none does.
\<close>

fun np_select :: "bool list \<Rightarrow> 'a list \<Rightarrow> 'a \<Rightarrow> 'a" where
  "np_select (c # cs) (v # vs) d = (if c then v else np_select cs vs d)"
| "np_select _ _ d = d"

text \<open>
  \<^verbatim>\<open>
  tbl["Outcome"] = np.select(
      [tbl["False call"] > 0, tbl["Overridden"] > 0, tbl["Reworkable"] > 0],
      ["False", "Real", "Suspect"], default="None")
  return tbl[tbl["Outcome"] != "None"].copy()
  \<close>
\<close>

definition select_outcome :: "'a collapsed_row_scheme \<Rightarrow> string" where
  "select_outcome row =
     np_select [False_call row > 0, Overridden row > 0, Reworkable row > 0]
       [''False'', ''Real'', ''Suspect''] ''None''"

definition with_outcome :: "collapsed_row \<Rightarrow> string \<Rightarrow> outcome_row" where
  "with_outcome row lbl = collapsed_row.extend row (outcome_row.fields lbl)"

definition assign_outcome :: "collapsed_row list \<Rightarrow> outcome_row list" where
  "assign_outcome tbl =
     filter (\<lambda>row. Outcome row \<noteq> ''None'')
       (map (\<lambda>row. with_outcome row (select_outcome row)) tbl)"

subsection \<open>The loop collapser\<close>

type_synonym key = "cell \<times> cell \<times> cell"

definition key_of :: "'a key_cols_scheme \<Rightarrow> key" where
  "key_of row = (SerialNumber row, Ref_Id row, DefectCode row)"

text \<open>
  \<open>df.groupby([...4 columns...], dropna=False).size()\<close>: one entry per distinct
  (key, status) pair of the frame, holding the number of rows of that pair. With
  \<open>dropna=False\<close> an empty cell is a group value like any other. pandas lists the
  groups sorted by key; the order of rows is not modelled (the list comes in the order
  \<open>remdups\<close> leaves), and nothing below depends on it.
\<close>

definition groupby_size :: "raw_row list \<Rightarrow> ((key \<times> cell) \<times> int) list" where
  "groupby_size df =
     map (\<lambda>g. (g, int (length (filter (\<lambda>row. (key_of row, ReworkStatus row) = g) df))))
       (remdups (map (\<lambda>row. (key_of row, ReworkStatus row)) df))"

text \<open>
  \<open>.unstack(fill_value=0).reset_index()\<close>: the innermost index level (the status)
  becomes the columns. The result is the list of status columns and, for each distinct
  key, the key with one value per status column, \<open>fill_value\<close> where the series has no
  entry.
\<close>

definition unstack :: "int \<Rightarrow> ((key \<times> cell) \<times> int) list \<Rightarrow> cell list \<times> (key \<times> (cell \<times> int) list) list" where
  "unstack fill_value ser =
     (let cols = remdups (map (\<lambda>e. snd (fst e)) ser);
          idx = remdups (map (\<lambda>e. fst (fst e)) ser)
      in (cols,
          map (\<lambda>k. (k, map (\<lambda>c. (c, case map_of ser (k, c) of
                                         Some n \<Rightarrow> n | None \<Rightarrow> fill_value)) cols)) idx))"

text \<open>
  \<^verbatim>\<open>
  for col in REWORK_STATUS_COLUMNS:
      if col not in tbl:
          tbl[col] = 0
  \<close>
  followed by a read of \<open>row[col]\<close>: the unstacked value when the column exists, 0 when
  the loop had to add it.
\<close>

definition REWORK_STATUS_COLUMNS :: "string list" where
  "REWORK_STATUS_COLUMNS = [''False call'', ''Overridden'', ''Reworkable'']"

definition status_column :: "(cell \<times> int) list \<Rightarrow> string \<Rightarrow> int" where
  "status_column vals col = (case map_of vals (Str col) of Some n \<Rightarrow> n | None \<Rightarrow> 0)"

definition collapse_loops :: "raw_row list \<Rightarrow> collapsed_row list" where
  "collapse_loops df =
     map (\<lambda>(k, vals).
            \<lparr>SerialNumber = fst k, Ref_Id = fst (snd k), DefectCode = snd (snd k),
             False_call = status_column vals (REWORK_STATUS_COLUMNS ! 0),
             Overridden = status_column vals (REWORK_STATUS_COLUMNS ! 1),
             Reworkable = status_column vals (REWORK_STATUS_COLUMNS ! 2)\<rparr>)
       (snd (unstack 0 (groupby_size df)))"

text \<open>The number of raw rows with a given key and disposition.\<close>

definition loops_with :: "raw_row list \<Rightarrow> key \<Rightarrow> string \<Rightarrow> int" where
  "loops_with df k status =
     int (length (filter (\<lambda>row. key_of row = k \<and> ReworkStatus row = Str status) df))"

definition raw :: "string \<Rightarrow> string \<Rightarrow> string \<Rightarrow> cell \<Rightarrow> raw_row" where
  "raw sn ref code status =
     \<lparr>SerialNumber = Str sn, Ref_Id = Str ref, DefectCode = Str code, ReworkStatus = status\<rparr>"

text \<open>A row given by its three disposition counts alone (the key cells left empty).\<close>

definition counts :: "int \<Rightarrow> int \<Rightarrow> int \<Rightarrow> collapsed_row" where
  "counts f o' r =
     \<lparr>SerialNumber = NaN, Ref_Id = NaN, DefectCode = NaN,
      False_call = f, Overridden = o', Reworkable = r\<rparr>"

section \<open>The defects table (\<open>ingest_to_db.py\<close>)\<close>

subsection \<open>Frames and stored values\<close>

text \<open>
  A dataframe as \<open>upsert_df\<close> reads it: \<open>df.columns.tolist()\<close> and
  \<open>df.values.tolist()\<close>.
\<close>

record frame =
  df_columns :: "string list"
  df_values :: "cell list list"

text \<open>
  \<open>process_file\<close>: collapse the loops, label every row with \<open>classify\<close>, drop the rows
  labelled "None". The merge with the metadata columns adds columns only and is left
  out, as the raw rows here carry no metadata.
\<close>

definition frame_of :: "outcome_row list \<Rightarrow> frame" where
  "frame_of tbl =
     \<lparr>df_columns = [''SerialNumber'', ''Ref_Id'', ''DefectCode'',
                    ''False call'', ''Overridden'', ''Reworkable'', ''Outcome''],
      df_values = map (\<lambda>row. [SerialNumber row, Ref_Id row, DefectCode row,
                               Num (False_call row), Num (Overridden row),
                               Num (Reworkable row), Str (Outcome row)]) tbl\<rparr>"

definition process_file :: "raw_row list \<Rightarrow> frame" where
  "process_file df =
     frame_of (filter (\<lambda>row. Outcome row \<noteq> ''None'')
                 (map (\<lambda>row. with_outcome row (classify row)) (collapse_loops df)))"

text \<open>
  A value as the store holds it. The \<open>sqlite3\<close> module binds text as TEXT, a Python
  integer as INTEGER, and both \<open>None\<close> and a floating-point NaN (an empty dataframe
  cell) as NULL.
\<close>

datatype sqlval = Null | Text string | Integer int

definition bind :: "cell \<Rightarrow> sqlval" where
  "bind c = (case c of NaN \<Rightarrow> Null | Str s \<Rightarrow> Text s | Num n \<Rightarrow> Integer n)"

text \<open>Decimal notation of an integer, as a TEXT column stores a number.\<close>

fun digits :: "nat \<Rightarrow> string" where
  "digits n =
     (if n < 10 then [char_of (48 + n)]
      else digits (n div 10) @ [char_of (48 + n mod 10)])"

declare digits.simps [simp del]

definition decimal :: "int \<Rightarrow> string" where
  "decimal i = (if i < 0 then CHR ''-'' # digits (nat (- i)) else digits (nat i))"

definition text_affinity :: "sqlval \<Rightarrow> sqlval" where
  "text_affinity v = (case v of Integer n \<Rightarrow> Text (decimal n) | _ \<Rightarrow> v)"

subsection \<open>\<open>ensure_table\<close> and \<open>upsert_df\<close>\<close>

definition PRIMARY_KEY :: "string list" where
  "PRIMARY_KEY = [''SerialNumber'', ''Ref_Id'', ''DefectCode'']"

text \<open>
  A stored row gives a value to some columns; every other column of the table reads as
  NULL. So \<open>ALTER TABLE ... ADD COLUMN\<close> leaves the stored rows as they are.
\<close>

type_synonym db_row = "(string \<times> sqlval) list"

definition column_value :: "db_row \<Rightarrow> string \<Rightarrow> sqlval" where
  "column_value row col = (case map_of row col of Some v \<Rightarrow> v | None \<Rightarrow> Null)"

definition primary_key :: "db_row \<Rightarrow> sqlval list" where
  "primary_key row = map (column_value row) PRIMARY_KEY"

text \<open>
  \<open>ensure_table\<close> declares the three key columns as \<open>TEXT\<close> and as the table's
  \<open>PRIMARY KEY\<close>, without \<open>NOT NULL\<close>; the affinity of the other columns is not
  modelled. The connection is the content of the \<open>defects\<close> table, \<open>None\<close> while the
  table does not exist.
\<close>

definition ensure_table :: "db_row list option \<Rightarrow> frame \<Rightarrow> db_row list option" where
  "ensure_table conn df = (case conn of None \<Rightarrow> Some [] | Some tbl \<Rightarrow> Some tbl)"

definition store_row :: "string list \<Rightarrow> cell list \<Rightarrow> db_row" where
  "store_row cols vals =
     map (\<lambda>(c, v). (c, if c \<in> set PRIMARY_KEY then text_affinity (bind v) else bind v))
       (zip cols vals)"

text \<open>
  \<open>INSERT OR REPLACE\<close>: the rows that would violate the primary key are deleted, then
  the new row is inserted. In a unique index of the store a NULL is distinct from every
  value, another NULL included: a row whose key holds a NULL violates nothing.
\<close>

definition conflicts :: "db_row \<Rightarrow> db_row \<Rightarrow> bool" where
  "conflicts new old = (Null \<notin> set (primary_key new) \<and> primary_key old = primary_key new)"

definition insert_or_replace :: "db_row list \<Rightarrow> db_row \<Rightarrow> db_row list" where
  "insert_or_replace tbl new = filter (\<lambda>old. \<not> conflicts new old) tbl @ [new]"

datatype db_error = OperationalError | IntegrityError

text \<open>
  \<^verbatim>\<open>
  cols = df.columns.tolist()
  sql = f"INSERT OR REPLACE INTO defects ({col_names_sql}) VALUES ({placeholders});"
  conn.executemany(sql, df.values.tolist())
  \<close>
  The statement fails with \<open>OperationalError\<close> when the table does not exist.
\<close>

definition upsert_df :: "db_row list option \<Rightarrow> frame \<Rightarrow> db_error + db_row list" where
  "upsert_df conn df =
     (case conn of
        None \<Rightarrow> Inl OperationalError
      | Some tbl \<Rightarrow>
          Inr (foldl insert_or_replace tbl (map (store_row (df_columns df)) (df_values df))))"

text \<open>Keys without NULL are pairwise different; no key of the rows holds a NULL.\<close>

definition unique_keys :: "db_row list \<Rightarrow> bool" where
  "unique_keys tbl = distinct (filter (\<lambda>k. Null \<notin> set k) (map primary_key tbl))"

definition no_null_keys :: "db_row list \<Rightarrow> bool" where
  "no_null_keys rows = list_all (\<lambda>row. Null \<notin> set (primary_key row)) rows"

section \<open>Outcome counts for the issue tracker (\<open>pages/action_tracker.py\<close>)\<close>












text \<open>
  \<open>Series.value_counts()\<close>: the number of occurrences of each value, empty cells left
  out; \<open>counts.get(label, default)\<close>.
\<close>

definition value_counts :: "cell list \<Rightarrow> (cell \<times> int) list" where
  "value_counts col =
     map (\<lambda>v. (v, int (length (filter (\<lambda>c. c = v) col)))) (remdups (filter (\<lambda>c. c \<noteq> NaN) col))"






section \<open>Command-line entry points\<close>

text \<open>
  What the two scripts see of their environment: the files of the current directory
  that match \<open>"Defect RawData - *.xlsx"\<close>, each with its modification time, in the
  order \<open>Path.glob\<close> yields them (the time is a float in Python, a whole number here);
  whether a path exists; the absolute form of a path; what \<open>pd.read_excel\<close> returns for
  a path and a sheet, or the exception it raises; the sheet names of a workbook.
\<close>

datatype sheet = Sheet_index nat | Sheet_name string

datatype read_error = ValueError string | Other_error

record world =
  glob_matches :: "(string \<times> int) list"
  path_exists :: "string \<Rightarrow> bool"
  resolve :: "string \<Rightarrow> string"
  read_excel :: "string \<Rightarrow> sheet \<Rightarrow> read_error + raw_row list"
  sheet_names :: "string \<Rightarrow> string list"

text \<open>
  What a run does, in order: text printed to the two streams (the printed
  \<open>value_counts\<close> and the printed list of sheet names are kept as data, their layout is
  the library's), workbooks read and written, and the traceback of an uncaught
  exception. A run ends with an exit status: 0, the argument of \<open>sys.exit\<close>, or 1 after
  an uncaught exception.
\<close>

datatype event =
    Stdout string
  | Stdout_counts "(cell \<times> int) list"
  | Stderr string
  | Stderr_sheets string "string list"
  | Read_excel string sheet
  | To_excel string frame
  | Traceback

text \<open>
  \<^verbatim>\<open>
  files = sorted(Path.cwd().glob(pattern), key=lambda p: p.stat().st_mtime, reverse=True)
  return files[0] if files else None
  \<close>
  \<open>sorted\<close> is stable, also with \<open>reverse=True\<close>; so is \<open>sort_key\<close>.
\<close>

definition find_latest_rawdata :: "world \<Rightarrow> string option" where
  "find_latest_rawdata w =
     (case sort_key (\<lambda>p. - snd p) (glob_matches w) of
        [] \<Rightarrow> None
      | p # _ \<Rightarrow> Some (fst p))"

definition outcome_counts :: "outcome_row list \<Rightarrow> (cell \<times> int) list" where
  "outcome_counts tbl = value_counts (map (\<lambda>row. Str (Outcome row)) tbl)"

text \<open>\<open>aoi_classify.main\<close> and the block under \<open>if __name__ == "__main__"\<close>.\<close>

definition classify_main :: "world \<Rightarrow> string \<Rightarrow> string \<Rightarrow> event list \<times> int" where
  "classify_main w src dst =
     (case read_excel w src (Sheet_index 0) of
        Inl e \<Rightarrow> ([Read_excel src (Sheet_index 0), Traceback], 1)
      | Inr df \<Rightarrow>
          (let final = filter (\<lambda>row. Outcome row \<noteq> ''None'')
                         (map (\<lambda>row. with_outcome row (classify row)) (collapse_loops df))
           in ([Read_excel src (Sheet_index 0),
                To_excel dst (frame_of final),
                Stdout (''Written: '' @ resolve w dst),
                Stdout (CHR 0x0A # ''Outcome counts'' @ CHR 0x0A # ''--------------''),
                Stdout_counts (outcome_counts final)], 0)))"

definition classify_cli :: "world \<Rightarrow> string list \<Rightarrow> event list \<times> int" where
  "classify_cli w argv =
     (let dst_file = (if length argv > 2 then argv ! 2 else ''AOI_defect_status.xlsx'')
      in if length argv > 1 then classify_main w (argv ! 1) dst_file
         else case find_latest_rawdata w of
                None \<Rightarrow>
                  ([Stderr (''[ERROR] No AOI export found in current directory. '' @
                            ''Please pass the XLSX as the first argument.'')], 1)
              | Some src_file \<Rightarrow> classify_main w src_file dst_file)"

text \<open>
  \<open>aoi_defect_status\<close>: the namespace \<open>parse_args\<close> returns, \<open>load_data\<close> and \<open>main\<close>.
  \<open>args.input\<close> counts as absent when it is \<open>None\<close> or the empty string.
\<close>

record args =
  input :: "string option"
  sheet_arg :: string
  out :: string

definition load_data :: "world \<Rightarrow> string \<Rightarrow> string \<Rightarrow> event list \<times> (read_error + raw_row list)" where
  "load_data w xlsx_path sheet_name =
     (case read_excel w xlsx_path (Sheet_name sheet_name) of
        Inl (ValueError e) \<Rightarrow>
          ([Read_excel xlsx_path (Sheet_name sheet_name),
            Stderr_sheets (''[ERROR] '' @ e) (sheet_names w xlsx_path)], Inl (ValueError e))
      | Inl Other_error \<Rightarrow> ([Read_excel xlsx_path (Sheet_name sheet_name)], Inl Other_error)
      | Inr df \<Rightarrow> ([Read_excel xlsx_path (Sheet_name sheet_name)], Inr df))"

definition status_main :: "world \<Rightarrow> args \<Rightarrow> event list \<times> int" where
  "status_main w a =
     (let input_path = (case input a of
                          None \<Rightarrow> find_latest_rawdata w
                        | Some p \<Rightarrow> if p \<noteq> [] then Some p else find_latest_rawdata w)
      in case input_path of
           None \<Rightarrow> ([Stderr ''[ERROR] No input file provided and none matching pattern found.''], 1)
         | Some p \<Rightarrow>
             if \<not> path_exists w p
             then ([Stderr ''[ERROR] No input file provided and none matching pattern found.''], 1)
             else
               (let info = Stdout (''[INFO] Loading '' @ [CHR 0x27] @ p @ [CHR 0x27] @ '' (sheet='' @
                                     [CHR 0x27] @ sheet_arg a @ [CHR 0x27] @ '')'' @
                                     [CHR 0xE2, CHR 0x80, CHR 0xA6])
                in case load_data w p (sheet_arg a) of
                     (evs, Inl e) \<Rightarrow> (info # evs @ [Traceback], 1)
                   | (evs, Inr raw_df) \<Rightarrow>
                       (let status = assign_outcome (collapse_loops raw_df)
                        in (info # evs @
                            [Stdout ''[INFO] Outcome distribution:'',
                             Stdout_counts (outcome_counts status),
                             To_excel (out a) (frame_of status),
                             Stdout (''[INFO] Saved result to '' @ [CHR 0x27] @ out a @ [CHR 0x27] @ ''.'')],
                            0))))"

text \<open>The events that open a workbook.\<close>

fun touches_files :: "event \<Rightarrow> bool" where
  "touches_files (Read_excel p s) = True"
| "touches_files (To_excel p f) = True"
| "touches_files (Stderr_sheets m ns) = True"
| "touches_files e = False"

text \<open>A directory without any export.\<close>

definition no_files :: world where
  "no_files = \<lparr>glob_matches = [], path_exists = (\<lambda>p. False), resolve = (\<lambda>p. p),
               read_excel = (\<lambda>p s. Inl Other_error), sheet_names = (\<lambda>p. [])\<rparr>"

section \<open>The issue tracker (\<open>pages/action_tracker.py\<close>)\<close>

subsection \<open>Values and tables\<close>

text \<open>
  The Python values that reach \<open>save_issue\<close> and that the store hands back. Floats (the
  columns \<open>rework_time_mins\<close> and \<open>rework_cost\<close>) are not represented. \<open>py_str\<close> is
  \<open>str()\<close>, \<open>truthy\<close> the truth value of an object.
\<close>

datatype pyval = PNone | PStr string | PInt int | PBool bool

definition py_str :: "pyval \<Rightarrow> string" where
  "py_str v =
     (case v of
        PNone \<Rightarrow> ''None''
      | PStr s \<Rightarrow> s
      | PInt i \<Rightarrow> decimal i
      | PBool b \<Rightarrow> (if b then ''True'' else ''False''))"

definition truthy :: "pyval \<Rightarrow> bool" where
  "truthy v =
     (case v of PNone \<Rightarrow> False | PStr s \<Rightarrow> s \<noteq> [] | PInt i \<Rightarrow> i \<noteq> 0 | PBool b \<Rightarrow> b)"

text \<open>
  \<^verbatim>\<open>
  if value is not None:
      clean_data[key] = str(value) if not isinstance(value, (int, float)) else value
  else:
      clean_data[key] = ""
  \<close>
  A \<open>bool\<close> is an \<open>int\<close> in Python and is kept as it is.
\<close>

definition clean_value :: "pyval \<Rightarrow> pyval" where
  "clean_value v = (case v of PNone \<Rightarrow> PStr [] | PStr s \<Rightarrow> PStr s | PInt i \<Rightarrow> PInt i | PBool b \<Rightarrow> PBool b)"

text \<open>
  A value as the store keeps a bound parameter: a \<open>bool\<close> becomes 0 or 1. The type
  affinity of the columns is not modelled.
\<close>

definition bind_value :: "pyval \<Rightarrow> pyval" where
  "bind_value v = (case v of PBool b \<Rightarrow> PInt (if b then 1 else 0) | _ \<Rightarrow> v)"

text \<open>
  A row of \<open>issues\<close> is the list of its columns with their values, as
  \<open>dict(zip(columns, existing))\<close> reads it. An entry of \<open>issue_changelog\<close> has the five
  columns \<open>log_change\<close> writes; its \<open>id\<close> and \<open>changed_at\<close> are given by the store
  (a counter and the clock) and are left out. The database holds the two tables, each
  absent until it is created, the columns of \<open>issues\<close> and the \<open>AUTOINCREMENT\<close> counter
  of its \<open>id\<close>.
\<close>

type_synonym issue_row = "(string \<times> pyval) list"

record changelog_entry =
  issue_id :: pyval
  field_name :: string
  old_value :: string
  new_value :: string
  changed_by :: string

record db =
  issue_cols :: "string list"
  issues :: "issue_row list option"
  issue_seq :: int
  changelog :: "changelog_entry list option"

definition issue_rows :: "db \<Rightarrow> issue_row list" where
  "issue_rows d = (case issues d of None \<Rightarrow> [] | Some rows \<Rightarrow> rows)"

definition changelog_rows :: "db \<Rightarrow> changelog_entry list" where
  "changelog_rows d = (case changelog d of None \<Rightarrow> [] | Some rows \<Rightarrow> rows)"

definition col_val :: "issue_row \<Rightarrow> string \<Rightarrow> pyval" where
  "col_val row col = (case map_of row col of Some v \<Rightarrow> v | None \<Rightarrow> PNone)"

subsection \<open>\<open>ensure_issues_table\<close> and \<open>ensure_changelog_table\<close>\<close>

text \<open>
  The columns of \<open>CREATE TABLE IF NOT EXISTS issues\<close> and their defaults; \<open>now\<close> stands
  for \<open>CURRENT_TIMESTAMP\<close>.
\<close>

definition ISSUE_COLUMNS :: "string list" where
  "ISSUE_COLUMNS =
     [''id'', ''date_reported'', ''line_name'', ''shift'', ''serial_number'', ''component_pn'',
      ''ref_id'', ''issue_category'', ''issue_type'', ''description'',
      ''what_issue'', ''where_occurred'', ''why_preliminary'', ''when_happened'',
      ''who_detected'', ''how_detected'', ''how_much_impact'',
      ''short_term_fix'', ''long_term_action'', ''responsible_person'', ''due_date'', ''status'',
      ''rca_completed'', ''rca_method'', ''root_cause_final'', ''effectiveness_check'',
      ''disposition'', ''rework_time_mins'', ''rework_cost'',
      ''aoi_false'', ''aoi_real'', ''aoi_fixed'', ''aoi_suspect'',
      ''created_at'', ''updated_at'']"

definition AOI_COLUMNS :: "string list" where
  "AOI_COLUMNS = [''aoi_false'', ''aoi_real'', ''aoi_fixed'', ''aoi_suspect'']"

definition column_default :: "string \<Rightarrow> string \<Rightarrow> pyval" where
  "column_default now col =
     (if col \<in> set ([''rca_completed'', ''effectiveness_check''] @ AOI_COLUMNS) then PInt 0
      else if col \<in> set [''created_at'', ''updated_at''] then PStr now
      else PNone)"

text \<open>
  \<^verbatim>\<open>
  for col in ["aoi_false", "aoi_real", "aoi_fixed", "aoi_suspect"]:
      if col not in existing_cols:
          cur.execute(f"ALTER TABLE issues ADD COLUMN {col} INTEGER DEFAULT 0;")
  \<close>
\<close>

definition add_column :: "db \<Rightarrow> string \<Rightarrow> db" where
  "add_column d col =
     (if col \<in> set (issue_cols d) then d
      else d\<lparr>issue_cols := issue_cols d @ [col],
              issues := Some (map (\<lambda>row. row @ [(col, PInt 0)]) (issue_rows d))\<rparr>)"

definition ensure_issues_table :: "db \<Rightarrow> db" where
  "ensure_issues_table d =
     foldl add_column
       (case issues d of
          None \<Rightarrow> d\<lparr>issue_cols := ISSUE_COLUMNS, issues := Some []\<rparr>
        | Some rows \<Rightarrow> d)
       AOI_COLUMNS"

definition ensure_changelog_table :: "db \<Rightarrow> db" where
  "ensure_changelog_table d =
     (case changelog d of None \<Rightarrow> d\<lparr>changelog := Some []\<rparr> | Some rows \<Rightarrow> d)"

subsection \<open>\<open>log_change\<close>\<close>

text \<open>
  \<^verbatim>\<open>
  ensure_changelog_table(conn)
  cur.execute("INSERT INTO issue_changelog (issue_id, field_name, old_value, new_value,
      changed_by) VALUES (?, ?, ?, ?, ?)",
      (issue_id, field_name, str(old_value), str(new_value), changed_by))
  conn.commit()
  \<close>
  \<open>issue_id\<close> is declared \<open>NOT NULL\<close>: the insert fails for \<open>None\<close>. The foreign key on
  \<open>issue_id\<close> is not enforced by the store in its default configuration. The result is
  the outcome of the call together with the database it leaves, also when it raises.
\<close>

definition log_change :: "db \<Rightarrow> pyval \<Rightarrow> string \<Rightarrow> pyval \<Rightarrow> pyval \<Rightarrow> string \<Rightarrow> (db_error + unit) \<times> db" where
  "log_change conn iid field old new by =
     (let d = ensure_changelog_table conn
      in if iid = PNone then (Inl IntegrityError, d)
         else (Inr (),
               d\<lparr>changelog := Some (changelog_rows d @
                  [\<lparr>issue_id = bind_value iid, field_name = field, old_value = py_str old,
                    new_value = py_str new, changed_by = by\<rparr>])\<rparr>))"

subsection \<open>\<open>save_issue\<close>\<close>

text \<open>
  The loop that compares the stored row with the supplied fields:
  \<^verbatim>\<open>
  for key, new_value in clean_data.items():
      if key != 'id' and key in existing_dict:
          old_value = existing_dict[key]
          if str(old_value) != str(new_value):
              log_change(conn, issue_id, key, old_value, new_value)
  \<close>
\<close>

fun log_changes :: "db \<Rightarrow> pyval \<Rightarrow> issue_row \<Rightarrow> (string \<times> pyval) list \<Rightarrow> (db_error + unit) \<times> db" where
  "log_changes conn iid existing [] = (Inr (), conn)"
| "log_changes conn iid existing ((key, new) # items) =
     (if key \<noteq> ''id'' \<and> key \<in> fst ` set existing \<and>
         py_str (col_val existing key) \<noteq> py_str new
      then (case log_change conn iid key (col_val existing key) new ''System'' of
              (Inl e, conn') \<Rightarrow> (Inl e, conn')
            | (Inr u, conn') \<Rightarrow> log_changes conn' iid existing items)
      else log_changes conn iid existing items)"

text \<open>
  \<open>UPDATE issues SET `c1` = ?, ..., updated_at = CURRENT_TIMESTAMP WHERE id = ?\<close>. The
  statement is malformed when no column is supplied and fails on a column the table does
  not have. The comparison \<open>id = ?\<close> of the store is a parameter, \<open>sql_eq\<close>.
\<close>

definition set_col :: "issue_row \<Rightarrow> string \<times> pyval \<Rightarrow> issue_row" where
  "set_col row a = map (\<lambda>(k, x). if k = fst a then (k, bind_value (snd a)) else (k, x)) row"

definition sql_update :: "(pyval \<Rightarrow> pyval \<Rightarrow> bool) \<Rightarrow> string \<Rightarrow> db \<Rightarrow> (string \<times> pyval) list \<Rightarrow> pyval \<Rightarrow> (db_error + unit) \<times> db" where
  "sql_update sql_eq now conn assigns iid =
     (if assigns = [] \<or> \<not> set (map fst assigns) \<subseteq> set (issue_cols conn) \<or>
         ''updated_at'' \<notin> set (issue_cols conn)
      then (Inl OperationalError, conn)
      else (Inr (),
            conn\<lparr>issues := Some (map (\<lambda>row. if sql_eq (col_val row ''id'') iid
                                            then foldl set_col row (assigns @ [(''updated_at'', PStr now)])
                                            else row) (issue_rows conn))\<rparr>))"

text \<open>
  \<open>INSERT INTO issues (`c1`, ...) VALUES (?, ...)\<close>: the same failures, and
  \<open>date_reported\<close> is \<open>NOT NULL\<close> without a default. The new row takes the next \<open>id\<close>
  and the default of every column that is not supplied.
\<close>

definition sql_insert :: "string \<Rightarrow> db \<Rightarrow> (string \<times> pyval) list \<Rightarrow> (db_error + int) \<times> db" where
  "sql_insert now conn assigns =
     (if assigns = [] \<or> \<not> set (map fst assigns) \<subseteq> set (issue_cols conn)
      then (Inl OperationalError, conn)
      else if ''date_reported'' \<in> set (issue_cols conn) \<and> ''date_reported'' \<notin> set (map fst assigns)
      then (Inl IntegrityError, conn)
      else
        (let new_id = issue_seq conn + 1;
             row = map (\<lambda>c. (c, if c = ''id'' then PInt new_id
                                 else case map_of assigns c of
                                        Some v \<Rightarrow> bind_value v
                                      | None \<Rightarrow> column_default now c)) (issue_cols conn)
         in (Inr new_id, conn\<lparr>issues := Some (issue_rows conn @ [row]), issue_seq := new_id\<rparr>)))"

text \<open>
  \<open>save_issue\<close> itself. The supplied dictionary is the list of its items. The two
  debugging prints of the insert branch are left out.
\<close>

definition clean_data :: "(string \<times> pyval) list \<Rightarrow> (string \<times> pyval) list" where
  "clean_data data = map (\<lambda>(key, v). (key, clean_value v)) data"

definition requested_id :: "(string \<times> pyval) list \<Rightarrow> pyval option" where
  "requested_id data =
     (case map_of (clean_data data) ''id'' of
        Some v \<Rightarrow> if truthy v then Some v else None
      | None \<Rightarrow> None)"

definition save_issue :: "(pyval \<Rightarrow> pyval \<Rightarrow> bool) \<Rightarrow> string \<Rightarrow> db \<Rightarrow> (string \<times> pyval) list \<Rightarrow> (db_error + pyval) \<times> db" where
  "save_issue sql_eq now conn0 data =
     (let conn = ensure_changelog_table (ensure_issues_table conn0);
          cols = filter (\<lambda>(k, v). k \<noteq> ''id'') (clean_data data)
      in case requested_id data of
           Some iid \<Rightarrow>
             (case (case find (\<lambda>row. sql_eq (col_val row ''id'') iid) (issue_rows conn) of
                      Some existing \<Rightarrow> log_changes conn iid existing (clean_data data)
                    | None \<Rightarrow> (Inr (), conn)) of
                (Inl e, conn1) \<Rightarrow> (Inl e, conn1)
              | (Inr u, conn1) \<Rightarrow>
                  (case sql_update sql_eq now conn1 cols iid of
                     (Inl e, conn2) \<Rightarrow> (Inl e, conn2)
                   | (Inr u', conn2) \<Rightarrow> (Inr iid, conn2)))
         | None \<Rightarrow>
             (case sql_insert now conn cols of
                (Inl e, conn1) \<Rightarrow> (Inl e, conn1)
              | (Inr new_id, conn1) \<Rightarrow>
                  (case log_change conn1 (PInt new_id) ''status'' (PStr []) (PStr ''Created'') ''System'' of
                     (Inl e, conn2) \<Rightarrow> (Inl e, conn2)
                   | (Inr u, conn2) \<Rightarrow> (Inr (PInt new_id), conn2))))"

text \<open>The row \<open>save_issue\<close> finds for an id, once the table has all its columns.\<close>

definition stored_issue :: "(pyval \<Rightarrow> pyval \<Rightarrow> bool) \<Rightarrow> db \<Rightarrow> pyval \<Rightarrow> issue_row option" where
  "stored_issue sql_eq conn iid =
     find (\<lambda>row. sql_eq (col_val row ''id'') iid) (issue_rows (ensure_issues_table conn))"

text \<open>
  The entries the claim describes for an update: one for each supplied field, the id
  apart, that is a column of the stored row and whose stored value differs, as a
  string, from the supplied value.
\<close>

definition change_entries :: "pyval \<Rightarrow> issue_row \<Rightarrow> (string \<times> pyval) list \<Rightarrow> changelog_entry list" where
  "change_entries iid existing items =
     map (\<lambda>(key, new). \<lparr>issue_id = bind_value iid, field_name = key,
                          old_value = py_str (col_val existing key), new_value = py_str new,
                          changed_by = ''System''\<rparr>)
       (filter (\<lambda>(key, new). key \<noteq> ''id'' \<and> key \<in> fst ` set existing \<and>
                              py_str (col_val existing key) \<noteq> py_str new) items)"

text \<open>
  A database of an older version with one issue and its creation entry, and an edit
  of that issue that closes it and leaves the line as it is.
\<close>

definition tracker0 :: db where
  "tracker0 =
     \<lparr>issue_cols = [''id'', ''date_reported'', ''line_name'', ''status'', ''updated_at''],
      issues = Some [[(''id'', PInt 1), (''date_reported'', PStr ''2025-07-01''),
                      (''line_name'', PStr ''L1''), (''status'', PStr ''Open''),
                      (''updated_at'', PStr ''2025-07-01 08:00:00'')]],
      issue_seq = 1,
      changelog = Some [\<lparr>issue_id = PInt 1, field_name = ''status'', old_value = [],
                          new_value = ''Created'', changed_by = ''System''\<rparr>]\<rparr>"

definition update0 :: "(string \<times> pyval) list" where
  "update0 = [(''id'', PInt 1), (''line_name'', PStr ''L1''), (''status'', PStr ''Closed'')]"

section \<open>Properties of the classifiers\<close>

lemma with_outcome_sel [simp]:
  "Outcome (with_outcome row lbl) = lbl"
  "False_call (with_outcome row lbl) = False_call row"
  "Overridden (with_outcome row lbl) = Overridden row"
  "Reworkable (with_outcome row lbl) = Reworkable row"
  "SerialNumber (with_outcome row lbl) = SerialNumber row"
  "Ref_Id (with_outcome row lbl) = Ref_Id row"
  "DefectCode (with_outcome row lbl) = DefectCode row"
  by (simp_all add: with_outcome_def collapsed_row.defs outcome_row.defs)

text \<open>
  C1. Whenever the "False call" count is positive, \<open>classify\<close> answers "False",
  whatever the "Overridden" and "Reworkable" counts are.
\<close>

theorem classify_false_call:
  assumes "0 < False_call row"
  shows "classify row = ''False''"
  using assms by (simp add: classify_def)

theorem classify_false_call_witness:
  "0 < False_call (counts 2 0 5) \<and> classify (counts 2 0 5) = ''False''"
  using classify_false_call [of "counts 2 0 5"] by (simp add: counts_def)

text \<open>
  C2. With no "False call" row, \<open>classify\<close> answers "Fixed from previously caught" for
  overridden-only counts, "Suspect" for reworkable-only counts and "Real" when both
  counts are positive.
\<close>

theorem classify_no_false_call:
  assumes "False_call row = 0"
  shows "(0 < Overridden row \<and> Reworkable row = 0 \<longrightarrow>
            classify row = ''Fixed from previously caught'') \<and>
         (Overridden row = 0 \<and> 0 < Reworkable row \<longrightarrow> classify row = ''Suspect'') \<and>
         (0 < Overridden row \<and> 0 < Reworkable row \<longrightarrow> classify row = ''Real'')"
  using assms by (simp add: classify_def)

theorem classify_no_false_call_witness:
  "classify (counts 0 3 0) = ''Fixed from previously caught'' \<and>
   classify (counts 0 0 2) = ''Suspect'' \<and>
   classify (counts 0 4 1) = ''Real''"
  using classify_no_false_call [of "counts 0 3 0"]
    classify_no_false_call [of "counts 0 0 2"]
    classify_no_false_call [of "counts 0 4 1"]
  by (simp add: counts_def)

lemma select_outcome_eq:
  "select_outcome row =
     (if 0 < False_call row then ''False''
      else if 0 < Overridden row then ''Real''
      else if 0 < Reworkable row then ''Suspect''
      else ''None'')"
  by (simp add: select_outcome_def)

lemma assign_outcome_single:
  "assign_outcome [row] =
     (if select_outcome row = ''None'' then []
      else [with_outcome row (select_outcome row)])"
  by (simp add: assign_outcome_def)

text \<open>
  C3. The two scripts disagree. There are non-negative counts, not all zero, on which
  \<open>classify\<close> and \<open>assign_outcome\<close> give different labels; this happens on every row
  that has overridden loops only, which the first calls "Fixed from previously caught"
  and the second "Real".
\<close>

theorem classifiers_disagree:
  "(\<exists>f o' r. 0 \<le> f \<and> 0 \<le> o' \<and> 0 \<le> r \<and> 0 < f + o' + r \<and>
      map Outcome (assign_outcome [counts f o' r]) \<noteq> [classify (counts f o' r)]) \<and>
   (\<forall>o'. 0 < o' \<longrightarrow>
      classify (counts 0 o' 0) = ''Fixed from previously caught'' \<and>
      map Outcome (assign_outcome [counts 0 o' 0]) = [''Real''])"
proof -
  have overridden_only:
    "classify (counts 0 o' 0) = ''Fixed from previously caught'' \<and>
     map Outcome (assign_outcome [counts 0 o' 0]) = [''Real'']" if "0 < o'" for o'
    using that by (simp add: classify_def counts_def assign_outcome_single select_outcome_eq)
  have "map Outcome (assign_outcome [counts 0 1 0]) \<noteq> [classify (counts 0 1 0)]"
    using overridden_only [of 1] by simp
  then have "\<exists>f o' r. 0 \<le> f \<and> 0 \<le> o' \<and> 0 \<le> r \<and> 0 < f + o' + r \<and>
      map Outcome (assign_outcome [counts f o' r]) \<noteq> [classify (counts f o' r)]"
    by (intro exI [of _ 0] exI [of _ 1]) simp
  with overridden_only show ?thesis by blast
qed

theorem classifiers_disagree_witness:
  "(0::int) < 7 \<and> classify (counts 0 7 0) = ''Fixed from previously caught'' \<and>
   map Outcome (assign_outcome [counts 0 7 0]) = [''Real'']"
  using classifiers_disagree by simp

text \<open>
  C4. \<open>assign_outcome\<close> is a three-way rule in which the first match wins: "False" when
  the "False call" count is positive, otherwise "Real" when the "Overridden" count is
  positive, otherwise "Suspect" when the "Reworkable" count is positive. A row matching
  none of them is labelled "None" and is missing from the returned table; the other rows
  are returned in order with their label. No returned row is labelled
  "Fixed from previously caught".
\<close>

theorem assign_outcome_three_way:
  "assign_outcome tbl =
     map (\<lambda>row. with_outcome row
            (if 0 < False_call row then ''False''
             else if 0 < Overridden row then ''Real'' else ''Suspect''))
       (filter (\<lambda>row. 0 < False_call row \<or> 0 < Overridden row \<or> 0 < Reworkable row) tbl) \<and>
   (\<forall>row. (select_outcome row = ''None'') =
       (\<not> (0 < False_call row \<or> 0 < Overridden row \<or> 0 < Reworkable row))) \<and>
   (\<forall>row \<in> set (assign_outcome tbl). Outcome row \<noteq> ''Fixed from previously caught'')"
proof (intro conjI allI)
  show "assign_outcome tbl =
     map (\<lambda>row. with_outcome row
            (if 0 < False_call row then ''False''
             else if 0 < Overridden row then ''Real'' else ''Suspect''))
       (filter (\<lambda>row. 0 < False_call row \<or> 0 < Overridden row \<or> 0 < Reworkable row) tbl)"
    by (induction tbl) (simp_all add: assign_outcome_def select_outcome_eq)
  show "(select_outcome row = ''None'') =
     (\<not> (0 < False_call row \<or> 0 < Overridden row \<or> 0 < Reworkable row))" for row :: "'b collapsed_row_scheme"
    by (simp add: select_outcome_eq)
  show "\<forall>row \<in> set (assign_outcome tbl). Outcome row \<noteq> ''Fixed from previously caught''"
    by (auto simp: assign_outcome_def select_outcome_eq split: if_splits)
qed

theorem assign_outcome_three_way_witness:
  "map Outcome (assign_outcome [counts 1 1 1, counts 0 2 1, counts 0 0 0, counts 0 0 3])
     = [''False'', ''Real'', ''Suspect''] \<and>
   with_outcome (counts 0 2 1) ''Real'' \<in>
     set (assign_outcome [counts 1 1 1, counts 0 2 1, counts 0 0 0, counts 0 0 3]) \<and>
   Outcome (with_outcome (counts 0 2 1) ''Real'') \<noteq> ''Fixed from previously caught''"
proof -
  let ?tbl = "[counts 1 1 1, counts 0 2 1, counts 0 0 0, counts 0 0 3]"
  note rule = assign_outcome_three_way [of ?tbl]
  have eq: "assign_outcome ?tbl =
      [with_outcome (counts 1 1 1) ''False'', with_outcome (counts 0 2 1) ''Real'',
       with_outcome (counts 0 0 3) ''Suspect'']"
    by (subst conjunct1 [OF rule]) (simp add: counts_def)
  have mem: "with_outcome (counts 0 2 1) ''Real'' \<in> set (assign_outcome ?tbl)"
    by (simp add: eq)
  have "\<forall>row \<in> set (assign_outcome ?tbl). Outcome row \<noteq> ''Fixed from previously caught''"
    using rule by (rule conjunct2 [THEN conjunct2])
  with mem have "Outcome (with_outcome (counts 0 2 1) ''Real'') \<noteq> ''Fixed from previously caught''"
    by blast
  with mem show ?thesis by (simp add: eq)
qed

text \<open>
  C5. On non-negative counts \<open>classify\<close> answers "None" exactly when all three counts
  are zero; so a collapsed row that counts at least one disposition row never reaches
  the fallback branch.
\<close>

theorem classify_none_only_all_zero:
  assumes "0 \<le> False_call row" "0 \<le> Overridden row" "0 \<le> Reworkable row"
  shows "((classify row = ''None'') =
            (False_call row = 0 \<and> Overridden row = 0 \<and> Reworkable row = 0)) \<and>
         (0 < False_call row + Overridden row + Reworkable row \<longrightarrow> classify row \<noteq> ''None'')"
  using assms by (auto simp: classify_def)

theorem classify_none_only_all_zero_witness:
  "0 \<le> False_call (counts 0 0 4) \<and> 0 \<le> Overridden (counts 0 0 4) \<and>
   0 \<le> Reworkable (counts 0 0 4) \<and>
   0 < False_call (counts 0 0 4) + Overridden (counts 0 0 4) + Reworkable (counts 0 0 4) \<and>
   classify (counts 0 0 4) \<noteq> ''None'' \<and> classify (counts 0 0 0) = ''None''"
  using classify_none_only_all_zero [of "counts 0 0 4"]
    classify_none_only_all_zero [of "counts 0 0 0"]
  by (simp add: counts_def)

section \<open>Properties of the loop collapser\<close>


lemma map_of_groupby_size:
  "map_of (groupby_size df) g =
     (if g \<in> set (map (\<lambda>row. (key_of row, ReworkStatus row)) df)
      then Some (int (length (filter (\<lambda>row. (key_of row, ReworkStatus row) = g) df)))
      else None)"
  unfolding groupby_size_def
  by (induction "remdups (map (\<lambda>row. (key_of row, ReworkStatus row)) df)") (auto simp: map_of_map_restrict restrict_map_def)

lemma filter_empty_count:
  "g \<notin> set (map (\<lambda>row. (key_of row, ReworkStatus row)) df) \<Longrightarrow>
   filter (\<lambda>row. key_of row = fst g \<and> ReworkStatus row = snd g) df = []"
  by (induction df) auto

lemma groupby_size_lookup:
  "(case map_of (groupby_size df) (k, c) of Some n \<Rightarrow> n | None \<Rightarrow> 0) =
     int (length (filter (\<lambda>row. key_of row = k \<and> ReworkStatus row = c) df))"
proof (cases "(k, c) \<in> set (map (\<lambda>row. (key_of row, ReworkStatus row)) df)")
  case True
  then show ?thesis by (simp add: map_of_groupby_size)
next
  case False
  then show ?thesis
    using filter_empty_count [of "(k, c)" df] by (simp add: map_of_groupby_size)
qed

lemma status_column_unstacked:
  "status_column
     (map (\<lambda>c. (c, case map_of (groupby_size df) (k, c) of Some n \<Rightarrow> n | None \<Rightarrow> 0)) cols) col =
   (if Str col \<in> set cols then loops_with df k col else 0)"
  by (simp add: status_column_def map_of_map_restrict restrict_map_def groupby_size_lookup loops_with_def)

lemma set_groupby_statuses:
  "set (map (\<lambda>e. snd (fst e)) (groupby_size df)) = ReworkStatus ` set df"
  by (auto simp: groupby_size_def image_iff)

lemma set_groupby_keys:
  "set (map (\<lambda>e. fst (fst e)) (groupby_size df)) = key_of ` set df"
  by (auto simp: groupby_size_def image_iff)

lemma loops_with_absent:
  "Str col \<notin> ReworkStatus ` set df \<Longrightarrow> loops_with df k col = 0"
  by (induction df) (auto simp: loops_with_def)

lemma status_column_total:
  "status_column
     (map (\<lambda>c. (c, case map_of (groupby_size df) (k, c) of Some n \<Rightarrow> n | None \<Rightarrow> 0))
        (remdups (map (\<lambda>e. snd (fst e)) (groupby_size df)))) col =
   loops_with df k col"
proof (cases "Str col \<in> ReworkStatus ` set df")
  case True
  then show ?thesis
    unfolding status_column_unstacked using set_groupby_statuses [of df] by simp
next
  case False
  then show ?thesis
    unfolding status_column_unstacked using set_groupby_statuses [of df]
    by (simp add: loops_with_absent)
qed

lemma collapse_loops_eq:
  "collapse_loops df =
     map (\<lambda>k. \<lparr>SerialNumber = fst k, Ref_Id = fst (snd k), DefectCode = snd (snd k),
               False_call = loops_with df k ''False call'',
               Overridden = loops_with df k ''Overridden'',
               Reworkable = loops_with df k ''Reworkable''\<rparr>)
       (remdups (map (\<lambda>e. fst (fst e)) (groupby_size df)))"
  by (simp add: collapse_loops_def unstack_def Let_def REWORK_STATUS_COLUMNS_def
      status_column_total comp_def)

text \<open>
  C7. The loop collapser returns exactly one row for each distinct
  (SerialNumber, Ref_Id, DefectCode) of the raw table, and in every returned row each
  of the columns "False call", "Overridden" and "Reworkable" holds the number of raw
  rows with that key and that \<open>ReworkStatus\<close>; this number is 0 when there is no such
  raw row, also when no raw row at all has that status and the column had to be added.
\<close>

theorem collapse_loops_counts:
  "distinct (map key_of (collapse_loops df)) \<and>
   set (map key_of (collapse_loops df)) = key_of ` set df \<and>
   (\<forall>row \<in> set (collapse_loops df).
      False_call row = loops_with df (key_of row) ''False call'' \<and>
      Overridden row = loops_with df (key_of row) ''Overridden'' \<and>
      Reworkable row = loops_with df (key_of row) ''Reworkable'')"
proof -
  have keys: "map key_of (collapse_loops df) = remdups (map (\<lambda>e. fst (fst e)) (groupby_size df))"
    by (simp add: collapse_loops_eq key_of_def comp_def)
  have "distinct (map key_of (collapse_loops df))"
    by (simp add: keys)
  moreover have "set (map key_of (collapse_loops df)) = key_of ` set df"
    unfolding keys using set_groupby_keys [of df] by simp
  moreover have "\<forall>row \<in> set (collapse_loops df).
      False_call row = loops_with df (key_of row) ''False call'' \<and>
      Overridden row = loops_with df (key_of row) ''Overridden'' \<and>
      Reworkable row = loops_with df (key_of row) ''Reworkable''"
    by (auto simp: collapse_loops_eq key_of_def)
  ultimately show ?thesis by blast
qed

theorem collapse_loops_counts_witness:
  "\<lparr>SerialNumber = Str ''S1'', Ref_Id = Str ''R1'', DefectCode = Str ''D1'',
     False_call = 0, Overridden = 1, Reworkable = 2\<rparr>
     \<in> set (collapse_loops
          [raw ''S1'' ''R1'' ''D1'' (Str ''Reworkable''), raw ''S1'' ''R1'' ''D1'' (Str ''Overridden''),
           raw ''S1'' ''R1'' ''D1'' (Str ''Reworkable''), raw ''S2'' ''R1'' ''D1'' NaN]) \<and>
   loops_with
     [raw ''S1'' ''R1'' ''D1'' (Str ''Reworkable''), raw ''S1'' ''R1'' ''D1'' (Str ''Overridden''),
      raw ''S1'' ''R1'' ''D1'' (Str ''Reworkable''), raw ''S2'' ''R1'' ''D1'' NaN]
     (Str ''S1'', Str ''R1'', Str ''D1'') ''Reworkable'' = 2 \<and>
   map key_of (collapse_loops
          [raw ''S1'' ''R1'' ''D1'' (Str ''Reworkable''), raw ''S1'' ''R1'' ''D1'' (Str ''Overridden''),
           raw ''S1'' ''R1'' ''D1'' (Str ''Reworkable''), raw ''S2'' ''R1'' ''D1'' NaN])
     = [(Str ''S1'', Str ''R1'', Str ''D1''), (Str ''S2'', Str ''R1'', Str ''D1'')]"
proof -
  let ?df = "[raw ''S1'' ''R1'' ''D1'' (Str ''Reworkable''), raw ''S1'' ''R1'' ''D1'' (Str ''Overridden''),
           raw ''S1'' ''R1'' ''D1'' (Str ''Reworkable''), raw ''S2'' ''R1'' ''D1'' NaN]"
  let ?row = "\<lparr>SerialNumber = Str ''S1'', Ref_Id = Str ''R1'', DefectCode = Str ''D1'',
     False_call = 0, Overridden = 1, Reworkable = 2\<rparr>"
  note rule = collapse_loops_counts [of ?df]
  have tbl: "collapse_loops ?df =
      [?row, \<lparr>SerialNumber = Str ''S2'', Ref_Id = Str ''R1'', DefectCode = Str ''D1'',
               False_call = 0, Overridden = 0, Reworkable = 0\<rparr>]"
    by (simp add: collapse_loops_def unstack_def groupby_size_def raw_def key_of_def
        status_column_def REWORK_STATUS_COLUMNS_def Let_def)
  have mem: "?row \<in> set (collapse_loops ?df)"
    by (simp add: tbl)
  with rule have "Reworkable ?row = loops_with ?df (key_of ?row) ''Reworkable''"
    by blast
  then have "loops_with ?df (Str ''S1'', Str ''R1'', Str ''D1'') ''Reworkable'' = 2"
    by (simp add: key_of_def)
  moreover have "map key_of (collapse_loops ?df)
     = [(Str ''S1'', Str ''R1'', Str ''D1''), (Str ''S2'', Str ''R1'', Str ''D1'')]"
    by (simp add: tbl key_of_def)
  ultimately show ?thesis using mem by simp
qed

lemma loops_with_nonneg: "0 \<le> loops_with df k status"
  by (simp add: loops_with_def)

lemma loops_with_positive:
  assumes "row \<in> set df" "key_of row = k" "ReworkStatus row = Str status"
  shows "0 < loops_with df k status"
proof -
  have "row \<in> set (filter (\<lambda>row. key_of row = k \<and> ReworkStatus row = Str status) df)"
    using assms by simp
  then have "filter (\<lambda>row. key_of row = k \<and> ReworkStatus row = Str status) df \<noteq> []"
    by (metis empty_iff list.set(1))
  then show ?thesis by (simp add: loops_with_def)
qed

text \<open>
  When every raw row carries one of the three dispositions, every collapsed row counts
  at least one of them, and \<open>classify\<close> does not fall through to "None" on it.
\<close>

lemma collapse_loops_some_disposition:
  assumes "\<forall>row \<in> set df. ReworkStatus row \<in> Str ` set REWORK_STATUS_COLUMNS"
    and "c \<in> set (collapse_loops df)"
  shows "0 < False_call c + Overridden c + Reworkable c \<and> classify c \<noteq> ''None''"
proof -
  from assms(2) obtain k where k: "k \<in> key_of ` set df"
    and c: "c = \<lparr>SerialNumber = fst k, Ref_Id = fst (snd k), DefectCode = snd (snd k),
               False_call = loops_with df k ''False call'',
               Overridden = loops_with df k ''Overridden'',
               Reworkable = loops_with df k ''Reworkable''\<rparr>"
    using set_groupby_keys [of df] by (auto simp: collapse_loops_eq)
  from k obtain row where row: "row \<in> set df" "key_of row = k"
    by auto
  with assms(1) have "ReworkStatus row = Str ''False call'' \<or> ReworkStatus row = Str ''Overridden''
      \<or> ReworkStatus row = Str ''Reworkable''"
    by (auto simp: REWORK_STATUS_COLUMNS_def)
  then have "0 < loops_with df k ''False call'' \<or> 0 < loops_with df k ''Overridden''
      \<or> 0 < loops_with df k ''Reworkable''"
    using loops_with_positive [OF row] by blast
  then have pos: "0 < False_call c + Overridden c + Reworkable c"
    using loops_with_nonneg [of df k "''False call''"] loops_with_nonneg [of df k "''Overridden''"]
      loops_with_nonneg [of df k "''Reworkable''"]
    by (auto simp: c)
  moreover have "0 \<le> False_call c" "0 \<le> Overridden c" "0 \<le> Reworkable c"
    by (simp_all add: c loops_with_nonneg)
  ultimately show ?thesis
    by (auto simp: classify_def)
qed

section \<open>Properties of the defects table\<close>

lemma distinct_map_filter_conj:
  "distinct (map f (filter P xs)) \<Longrightarrow> distinct (map f (filter (\<lambda>x. Q x \<and> P x) xs))"
  by (induction xs) (auto split: if_splits)

lemma unique_insert_or_replace:
  assumes "unique_keys tbl"
  shows "unique_keys (insert_or_replace tbl new)"
proof (cases "Null \<in> set (primary_key new)")
  case True
  with assms show ?thesis
    by (simp add: unique_keys_def insert_or_replace_def conflicts_def filter_map comp_def)
next
  case False
  have "distinct (map primary_key (filter (\<lambda>x. Null \<notin> set (primary_key x)) tbl))"
    using assms by (simp add: unique_keys_def filter_map comp_def)
  then have "distinct (map primary_key
      (filter (\<lambda>x. primary_key x \<noteq> primary_key new \<and> Null \<notin> set (primary_key x)) tbl))"
    by (rule distinct_map_filter_conj)
  with False show ?thesis
    by (auto simp: unique_keys_def insert_or_replace_def conflicts_def filter_map comp_def)
qed

lemma unique_foldl:
  "unique_keys tbl \<Longrightarrow> unique_keys (foldl insert_or_replace tbl rows)"
  by (induction rows arbitrary: tbl) (simp_all add: unique_insert_or_replace)

lemma foldl_insert_split:
  "no_null_keys rows \<Longrightarrow>
   foldl insert_or_replace tbl rows =
     filter (\<lambda>old. primary_key old \<notin> primary_key ` set rows) tbl @ foldl insert_or_replace [] rows"
proof (induction rows arbitrary: tbl rule: rev_induct)
  case Nil
  then show ?case by simp
next
  case (snoc r rows)
  then have nn: "no_null_keys rows" and r: "Null \<notin> set (primary_key r)"
    by (simp_all add: no_null_keys_def)
  have c: "conflicts r old = (primary_key old = primary_key r)" for old
    using r by (simp add: conflicts_def)
  have "foldl insert_or_replace tbl (rows @ [r]) = insert_or_replace (foldl insert_or_replace tbl rows) r"
    by simp
  also have "\<dots> = insert_or_replace
      (filter (\<lambda>old. primary_key old \<notin> primary_key ` set rows) tbl @ foldl insert_or_replace [] rows) r"
    by (simp only: snoc.IH [OF nn, of tbl])
  also have "\<dots> = filter (\<lambda>old. primary_key old \<notin> primary_key ` set (rows @ [r])) tbl @
       foldl insert_or_replace [] (rows @ [r])"
    by (simp add: insert_or_replace_def c conj_commute)
  finally show ?case .
qed

lemma keys_insert_or_replace:
  "primary_key ` set (insert_or_replace tbl new) = insert (primary_key new) (primary_key ` set tbl)"
  by (auto simp: insert_or_replace_def conflicts_def image_iff)

lemma keys_of_fresh_upsert:
  "primary_key ` set (foldl insert_or_replace [] rows) = primary_key ` set rows"
  by (induction rows rule: rev_induct) (simp_all add: keys_insert_or_replace)

lemma upsert_twice:
  assumes "no_null_keys rows"
  shows "foldl insert_or_replace (foldl insert_or_replace tbl rows) rows = foldl insert_or_replace tbl rows"
proof -
  let ?L = "foldl insert_or_replace [] rows"
  let ?T = "filter (\<lambda>old. primary_key old \<notin> primary_key ` set rows) tbl"
  have "filter (\<lambda>old. primary_key old \<notin> primary_key ` set rows) ?L = []"
    using keys_of_fresh_upsert [of rows] by (auto simp: filter_empty_conv)
  then have "foldl insert_or_replace (?T @ ?L) rows = ?T @ ?L"
    by (subst foldl_insert_split [OF assms]) simp
  then show ?thesis
    unfolding foldl_insert_split [OF assms, of tbl] .
qed

lemma upsert_df_keeps_unique:
  "unique_keys tbl \<Longrightarrow> upsert_df (Some tbl) df = Inr tbl' \<Longrightarrow> unique_keys tbl'"
  by (auto simp: upsert_df_def unique_foldl)

lemma upsert_df_twice:
  assumes "no_null_keys (map (store_row (df_columns df)) (df_values df))"
    and "upsert_df (Some tbl) df = Inr tbl'"
  shows "upsert_df (Some tbl') df = Inr tbl'"
  using assms(2) upsert_twice [OF assms(1), of tbl] by (auto simp: upsert_df_def)

text \<open>
  C6. The key (SerialNumber, Ref_Id, DefectCode) is unique among the rows whose key
  holds no NULL, and a frame without empty key cells is replaced when it is upserted
  again (the three lemmas above). A row with an empty key cell escapes both: the raw
  row below has no \<open>Ref_Id\<close>, the collapser keeps it (\<open>dropna=False\<close>), and ingesting
  the same file a second time appends a second copy of its row.
\<close>

theorem upsert_df_null_key_appends:
  "process_file [\<lparr>SerialNumber = Str ''SN1'', Ref_Id = NaN, DefectCode = Str ''D1'',
                   ReworkStatus = Str ''Reworkable''\<rparr>]
     = \<lparr>df_columns = [''SerialNumber'', ''Ref_Id'', ''DefectCode'',
                      ''False call'', ''Overridden'', ''Reworkable'', ''Outcome''],
        df_values = [[Str ''SN1'', NaN, Str ''D1'', Num 0, Num 0, Num 1, Str ''Suspect'']]\<rparr> \<and>
   upsert_df (ensure_table None
        (process_file [\<lparr>SerialNumber = Str ''SN1'', Ref_Id = NaN, DefectCode = Str ''D1'',
                         ReworkStatus = Str ''Reworkable''\<rparr>]))
      (process_file [\<lparr>SerialNumber = Str ''SN1'', Ref_Id = NaN, DefectCode = Str ''D1'',
                       ReworkStatus = Str ''Reworkable''\<rparr>])
     = Inr [[(''SerialNumber'', Text ''SN1''), (''Ref_Id'', Null), (''DefectCode'', Text ''D1''),
             (''False call'', Integer 0), (''Overridden'', Integer 0),
             (''Reworkable'', Integer 1), (''Outcome'', Text ''Suspect'')]] \<and>
   upsert_df
      (Some [[(''SerialNumber'', Text ''SN1''), (''Ref_Id'', Null), (''DefectCode'', Text ''D1''),
              (''False call'', Integer 0), (''Overridden'', Integer 0),
              (''Reworkable'', Integer 1), (''Outcome'', Text ''Suspect'')]])
      (process_file [\<lparr>SerialNumber = Str ''SN1'', Ref_Id = NaN, DefectCode = Str ''D1'',
                       ReworkStatus = Str ''Reworkable''\<rparr>])
     = Inr [[(''SerialNumber'', Text ''SN1''), (''Ref_Id'', Null), (''DefectCode'', Text ''D1''),
             (''False call'', Integer 0), (''Overridden'', Integer 0),
             (''Reworkable'', Integer 1), (''Outcome'', Text ''Suspect'')],
            [(''SerialNumber'', Text ''SN1''), (''Ref_Id'', Null), (''DefectCode'', Text ''D1''),
             (''False call'', Integer 0), (''Overridden'', Integer 0),
             (''Reworkable'', Integer 1), (''Outcome'', Text ''Suspect'')]]"
proof -
  have frame: "process_file [\<lparr>SerialNumber = Str ''SN1'', Ref_Id = NaN, DefectCode = Str ''D1'',
                   ReworkStatus = Str ''Reworkable''\<rparr>]
     = \<lparr>df_columns = [''SerialNumber'', ''Ref_Id'', ''DefectCode'',
                      ''False call'', ''Overridden'', ''Reworkable'', ''Outcome''],
        df_values = [[Str ''SN1'', NaN, Str ''D1'', Num 0, Num 0, Num 1, Str ''Suspect'']]\<rparr>"
    by (simp add: process_file_def frame_of_def collapse_loops_def unstack_def groupby_size_def
        key_of_def status_column_def REWORK_STATUS_COLUMNS_def Let_def classify_def)
  show ?thesis
    unfolding frame
    by (simp add: upsert_df_def ensure_table_def store_row_def PRIMARY_KEY_def bind_def
        text_affinity_def insert_or_replace_def conflicts_def primary_key_def column_value_def)
qed

section \<open>Properties of the outcome counts\<close>






section \<open>Properties of the command-line entry points\<close>

text \<open>
  C9. When no input file is given on the command line and no file of the current
  directory matches \<open>"Defect RawData - *.xlsx"\<close>, each of the two scripts prints one
  error message to stderr and exits with status 1; it reads no workbook and writes
  none.
\<close>

theorem cli_without_input_exits_1:
  assumes "glob_matches w = []"
  shows "(length argv \<le> 1 \<longrightarrow>
            classify_cli w argv =
              ([Stderr (''[ERROR] No AOI export found in current directory. '' @
                        ''Please pass the XLSX as the first argument.'')], 1) \<and>
            \<not> list_ex touches_files (fst (classify_cli w argv))) \<and>
         (input a = None \<or> input a = Some [] \<longrightarrow>
            status_main w a =
              ([Stderr ''[ERROR] No input file provided and none matching pattern found.''], 1) \<and>
            \<not> list_ex touches_files (fst (status_main w a)))"
  using assms
  by (auto simp: classify_cli_def status_main_def find_latest_rawdata_def Let_def)

theorem cli_without_input_exits_1_witness:
  "glob_matches no_files = [] \<and>
   classify_cli no_files [''aoi_classify.py''] =
     ([Stderr (''[ERROR] No AOI export found in current directory. '' @
               ''Please pass the XLSX as the first argument.'')], 1) \<and>
   status_main no_files \<lparr>input = None, sheet_arg = ''Defects'', out = ''AOI_defect_status.xlsx''\<rparr> =
     ([Stderr ''[ERROR] No input file provided and none matching pattern found.''], 1)"
proof -
  have g: "glob_matches no_files = []"
    by (simp add: no_files_def)
  from cli_without_input_exits_1 [OF g, of "[''aoi_classify.py'']"
      "\<lparr>input = None, sheet_arg = ''Defects'', out = ''AOI_defect_status.xlsx''\<rparr>"] g
  show ?thesis by simp
qed

section \<open>Properties of the change log\<close>

lemma changelog_rows_ensure_changelog [simp]:
  "changelog_rows (ensure_changelog_table conn) = changelog_rows conn"
  by (simp add: ensure_changelog_table_def changelog_rows_def split: option.splits)

lemma ensure_changelog_other [simp]:
  "issues (ensure_changelog_table conn) = issues conn"
  "issue_cols (ensure_changelog_table conn) = issue_cols conn"
  "issue_seq (ensure_changelog_table conn) = issue_seq conn"
  by (simp_all add: ensure_changelog_table_def split: option.splits)

lemma changelog_add_column [simp]:
  "changelog (add_column conn col) = changelog conn"
  by (simp add: add_column_def)

lemma changelog_foldl_add_column [simp]:
  "changelog (foldl add_column conn cols) = changelog conn"
  by (induction cols arbitrary: conn) simp_all

lemma issue_seq_add_column [simp]:
  "issue_seq (add_column conn col) = issue_seq conn"
  by (simp add: add_column_def)

lemma issue_seq_foldl_add_column [simp]:
  "issue_seq (foldl add_column conn cols) = issue_seq conn"
  by (induction cols arbitrary: conn) simp_all

lemma changelog_rows_ensure_issues [simp]:
  "changelog_rows (ensure_issues_table conn) = changelog_rows conn"
  by (simp add: ensure_issues_table_def changelog_rows_def split: option.splits)

lemma log_change_ok:
  assumes "iid \<noteq> PNone"
  shows "\<exists>conn'. log_change conn iid field old new by = (Inr (), conn') \<and>
           changelog_rows conn' = changelog_rows conn @
             [\<lparr>issue_id = bind_value iid, field_name = field, old_value = py_str old,
               new_value = py_str new, changed_by = by\<rparr>] \<and>
           issues conn' = issues conn \<and> issue_cols conn' = issue_cols conn \<and>
           issue_seq conn' = issue_seq conn"
  using assms by (simp add: log_change_def Let_def changelog_rows_def [of "_\<lparr>changelog := _\<rparr>"])

lemma log_changes_ok:
  assumes "iid \<noteq> PNone"
  shows "\<exists>conn'. log_changes conn iid existing items = (Inr (), conn') \<and>
           changelog_rows conn' = changelog_rows conn @ change_entries iid existing items \<and>
           issues conn' = issues conn \<and> issue_cols conn' = issue_cols conn \<and>
           issue_seq conn' = issue_seq conn"
proof (induction items arbitrary: conn)
  case Nil
  then show ?case by (simp add: change_entries_def)
next
  case (Cons item items)
  obtain key new where item: "item = (key, new)" by (cases item)
  show ?case
  proof (cases "key \<noteq> ''id'' \<and> key \<in> fst ` set existing \<and>
         py_str (col_val existing key) \<noteq> py_str new")
    case True
    from log_change_ok [OF assms, of conn key "col_val existing key" new "''System''"]
    obtain c1 where c1: "log_change conn iid key (col_val existing key) new ''System'' = (Inr (), c1)"
      "changelog_rows c1 = changelog_rows conn @
             [\<lparr>issue_id = bind_value iid, field_name = key, old_value = py_str (col_val existing key),
               new_value = py_str new, changed_by = ''System''\<rparr>]"
      "issues c1 = issues conn" "issue_cols c1 = issue_cols conn" "issue_seq c1 = issue_seq conn"
      by blast
    from Cons.IH [of c1] obtain c2 where c2: "log_changes c1 iid existing items = (Inr (), c2)"
      "changelog_rows c2 = changelog_rows c1 @ change_entries iid existing items"
      "issues c2 = issues c1" "issue_cols c2 = issue_cols c1" "issue_seq c2 = issue_seq c1"
      by blast
    have "log_changes conn iid existing (item # items) = (Inr (), c2)"
      using True c1(1) c2(1) by (simp add: item)
    moreover have "changelog_rows c2 = changelog_rows conn @ change_entries iid existing (item # items)"
      using True c1(2) c2(2) by (simp add: item change_entries_def)
    ultimately show ?thesis using c1 c2 by simp
  next
    case False
    from Cons.IH [of conn] obtain c2 where c2: "log_changes conn iid existing items = (Inr (), c2)"
      "changelog_rows c2 = changelog_rows conn @ change_entries iid existing items"
      "issues c2 = issues conn" "issue_cols c2 = issue_cols conn" "issue_seq c2 = issue_seq conn"
      by blast
    have "log_changes conn iid existing (item # items) = (Inr (), c2)"
      using False c2(1) by (auto simp: item)
    moreover have "change_entries iid existing (item # items) = change_entries iid existing items"
      using False by (auto simp: item change_entries_def)
    ultimately show ?thesis using c2 by simp
  qed
qed

lemma changelog_rows_sql_update [simp]:
  "changelog_rows (snd (sql_update sql_eq now conn assigns iid)) = changelog_rows conn"
  by (simp add: sql_update_def changelog_rows_def)

lemma changelog_rows_sql_insert [simp]:
  "changelog_rows (snd (sql_insert now conn assigns)) = changelog_rows conn"
  by (simp add: sql_insert_def changelog_rows_def Let_def)

lemma truthy_not_None: "truthy v \<Longrightarrow> v \<noteq> PNone"
  by (auto simp: truthy_def)

lemma issue_rows_ensure_changelog [simp]:
  "issue_rows (ensure_changelog_table conn) = issue_rows conn"
  by (simp add: issue_rows_def)

lemma snd_update_result:
  "snd (case p of (Inl e, c) \<Rightarrow> (Inl e, c) | (Inr u, c) \<Rightarrow> (Inr x, c)) = snd p"
  by (cases p) (auto split: sum.splits)

lemma save_issue_update_changelog:
  assumes "requested_id data = Some iid"
  shows "changelog_rows (snd (save_issue sql_eq now conn data)) =
           changelog_rows conn @
             (case stored_issue sql_eq conn iid of
                Some existing \<Rightarrow> change_entries iid existing (clean_data data)
              | None \<Rightarrow> [])"
proof -
  let ?c = "ensure_changelog_table (ensure_issues_table conn)"
  let ?cols = "filter (\<lambda>(k, v). k \<noteq> ''id'') (clean_data data)"
  have nn: "iid \<noteq> PNone"
    using assms by (auto simp: requested_id_def truthy_not_None split: option.splits if_splits)
  show ?thesis
  proof (cases "stored_issue sql_eq conn iid")
    case None
    then have "save_issue sql_eq now conn data =
        (case sql_update sql_eq now ?c ?cols iid of
           (Inl e, conn2) \<Rightarrow> (Inl e, conn2) | (Inr u', conn2) \<Rightarrow> (Inr iid, conn2))"
      using assms by (simp add: save_issue_def stored_issue_def Let_def)
    then show ?thesis
      using None by (simp add: snd_update_result)
  next
    case (Some existing)
    from log_changes_ok [OF nn, of ?c existing "clean_data data"]
    obtain c1 where c1: "log_changes ?c iid existing (clean_data data) = (Inr (), c1)"
      "changelog_rows c1 = changelog_rows ?c @ change_entries iid existing (clean_data data)"
      by blast
    have "save_issue sql_eq now conn data =
        (case sql_update sql_eq now c1 ?cols iid of
           (Inl e, conn2) \<Rightarrow> (Inl e, conn2) | (Inr u', conn2) \<Rightarrow> (Inr iid, conn2))"
      using assms Some c1(1) by (simp add: save_issue_def stored_issue_def Let_def)
    then show ?thesis
      using Some c1(2) by (simp add: snd_update_result)
  qed
qed

lemma save_issue_insert_changelog:
  assumes "requested_id data = None"
  shows "\<exists>new. changelog_rows (snd (save_issue sql_eq now conn data)) = changelog_rows conn @ new \<and>
           (new = [] \<or> new = [\<lparr>issue_id = PInt (issue_seq conn + 1), field_name = ''status'',
                                 old_value = [], new_value = ''Created'', changed_by = ''System''\<rparr>])"
proof -
  let ?c = "ensure_changelog_table (ensure_issues_table conn)"
  let ?cols = "filter (\<lambda>(k, v). k \<noteq> ''id'') (clean_data data)"
  obtain r c1 where ins: "sql_insert now ?c ?cols = (r, c1)"
    by (cases "sql_insert now ?c ?cols")
  have rows: "changelog_rows c1 = changelog_rows conn"
    using changelog_rows_sql_insert [of now ?c ?cols] ins by simp
  show ?thesis
  proof (cases r)
    case (Inl e)
    then have "save_issue sql_eq now conn data = (Inl e, c1)"
      using assms ins by (simp add: save_issue_def Let_def)
    then show ?thesis using rows by simp
  next
    case (Inr new_id)
    have seq: "issue_seq (ensure_issues_table conn) = issue_seq conn"
      by (simp add: ensure_issues_table_def split: option.splits)
    have nid: "new_id = issue_seq conn + 1"
      using ins Inr seq by (auto simp: sql_insert_def Let_def split: if_splits)
    from log_change_ok [of "PInt new_id" c1 "''status''" "PStr []" "PStr ''Created''" "''System''"]
    obtain c2 where c2: "log_change c1 (PInt new_id) ''status'' (PStr []) (PStr ''Created'') ''System'' = (Inr (), c2)"
      "changelog_rows c2 = changelog_rows c1 @
         [\<lparr>issue_id = PInt new_id, field_name = ''status'', old_value = [],
           new_value = ''Created'', changed_by = ''System''\<rparr>]"
      by (auto simp: bind_value_def py_str_def)
    have "save_issue sql_eq now conn data = (Inr (PInt new_id), c2)"
      using assms ins Inr c2(1) by (simp add: save_issue_def Let_def)
    then show ?thesis using rows c2(2) nid by simp
  qed
qed

lemma change_entries_absent:
  "key \<notin> fst ` set items \<Longrightarrow>
   filter (\<lambda>e. field_name e = key) (change_entries iid existing items) = []"
  by (induction items) (auto simp: change_entries_def)

lemma change_entries_Cons:
  "change_entries iid existing ((key, v) # items) =
     (if key \<noteq> ''id'' \<and> key \<in> fst ` set existing \<and> py_str (col_val existing key) \<noteq> py_str v
      then [\<lparr>issue_id = bind_value iid, field_name = key,
              old_value = py_str (col_val existing key), new_value = py_str v,
              changed_by = ''System''\<rparr>]
      else []) @ change_entries iid existing items"
  by (simp add: change_entries_def)

lemma change_entries_count:
  assumes "distinct (map fst items)" "(key, v) \<in> set items"
  shows "length (filter (\<lambda>e. field_name e = key) (change_entries iid existing items)) =
           (if key \<noteq> ''id'' \<and> key \<in> fst ` set existing \<and>
               py_str (col_val existing key) \<noteq> py_str v then 1 else 0)"
  using assms
proof (induction items)
  case Nil
  then show ?case by simp
next
  case (Cons item items)
  obtain k w where item: "item = (k, w)" by (cases item)
  show ?case
  proof (cases "(key, v) = (k, w)")
    case True
    then have "key \<notin> fst ` set items"
      using Cons.prems(1) by (simp add: item)
    then have "filter (\<lambda>e. field_name e = key) (change_entries iid existing items) = []"
      by (rule change_entries_absent)
    with True show ?thesis
      by (simp add: item change_entries_Cons)
  next
    case False
    then have mem: "(key, v) \<in> set items"
      using Cons.prems(2) by (auto simp: item)
    then have "key \<in> fst ` set items"
      by force
    then have "k \<noteq> key"
      using Cons.prems(1) by (auto simp: item)
    moreover have "distinct (map fst items)"
      using Cons.prems(1) by simp
    ultimately show ?thesis
      using Cons.IH mem by (simp add: item change_entries_Cons)
  qed
qed

lemma change_entries_sound:
  assumes "e \<in> set (change_entries iid existing items)"
  shows "field_name e \<noteq> ''id'' \<and> old_value e \<noteq> new_value e \<and>
         (\<exists>v. (field_name e, v) \<in> set items \<and>
               old_value e = py_str (col_val existing (field_name e)) \<and> new_value e = py_str v)"
  using assms by (auto simp: change_entries_def)

lemma distinct_clean_data [simp]:
  "map fst (clean_data data) = map fst data"
  by (simp add: clean_data_def comp_def case_prod_unfold)

lemma clean_data_mem:
  "(key, w) \<in> set (clean_data data) \<longleftrightarrow> (\<exists>v. (key, v) \<in> set data \<and> w = clean_value v)"
  by (auto simp: clean_data_def)

lemma log_change_appends:
  "\<exists>new. changelog_rows (snd (log_change conn iid field old new_v by)) = changelog_rows conn @ new"
proof (cases "iid = PNone")
  case True
  then show ?thesis by (simp add: log_change_def Let_def)
next
  case False
  from log_change_ok [OF False, of conn field old new_v "by"] show ?thesis by auto
qed

lemma save_issue_appends:
  "\<exists>new. changelog_rows (snd (save_issue sql_eq now conn data)) = changelog_rows conn @ new"
proof (cases "requested_id data")
  case None
  from save_issue_insert_changelog [OF None, of sql_eq now conn] show ?thesis by blast
next
  case (Some iid)
  from save_issue_update_changelog [OF Some, of sql_eq now conn] show ?thesis by blast
qed

text \<open>
  C8. The change log only grows: \<open>ensure_changelog_table\<close>, \<open>log_change\<close> and
  \<open>save_issue\<close>, the only code that writes to \<open>issue_changelog\<close>, keep every existing
  entry in place and add entries at the end. When \<open>save_issue\<close> updates an existing
  issue, it appends exactly one entry for each supplied field whose stored value
  differs, as a string, from the supplied value, and none for a field whose value is
  the same; every appended entry records such a difference.
\<close>

theorem changelog_append_only:
  "changelog_rows (ensure_changelog_table conn) = changelog_rows conn \<and>
   (\<exists>new. changelog_rows (snd (log_change conn iid field old new_v by)) = changelog_rows conn @ new) \<and>
   (\<exists>new. changelog_rows (snd (save_issue sql_eq now conn data)) = changelog_rows conn @ new) \<and>
   (\<forall>i existing.
      distinct (map fst data) \<and> requested_id data = Some i \<and>
      stored_issue sql_eq conn i = Some existing \<longrightarrow>
      (\<exists>new. changelog_rows (snd (save_issue sql_eq now conn data)) = changelog_rows conn @ new \<and>
         (\<forall>(key, v) \<in> set data. key \<noteq> ''id'' \<and> key \<in> fst ` set existing \<longrightarrow>
            length (filter (\<lambda>e. field_name e = key) new) =
              (if py_str (col_val existing key) \<noteq> py_str (clean_value v) then 1 else 0)) \<and>
         (\<forall>e \<in> set new. field_name e \<noteq> ''id'' \<and> old_value e \<noteq> new_value e \<and>
            (\<exists>v. (field_name e, v) \<in> set data \<and>
                  old_value e = py_str (col_val existing (field_name e)) \<and>
                  new_value e = py_str (clean_value v)))))"
proof (intro conjI allI impI)
  show "changelog_rows (ensure_changelog_table conn) = changelog_rows conn"
    by simp
  show "\<exists>new. changelog_rows (snd (log_change conn iid field old new_v by)) = changelog_rows conn @ new"
    by (rule log_change_appends)
  show "\<exists>new. changelog_rows (snd (save_issue sql_eq now conn data)) = changelog_rows conn @ new"
    by (rule save_issue_appends)
next
  fix i existing
  assume h: "distinct (map fst data) \<and> requested_id data = Some i \<and>
      stored_issue sql_eq conn i = Some existing"
  let ?new = "change_entries i existing (clean_data data)"
  have rows: "changelog_rows (snd (save_issue sql_eq now conn data)) = changelog_rows conn @ ?new"
    using save_issue_update_changelog [of data i sql_eq now conn] h by simp
  have d: "distinct (map fst (clean_data data))"
    using h by simp
  have count: "length (filter (\<lambda>e. field_name e = key) ?new) =
              (if py_str (col_val existing key) \<noteq> py_str (clean_value v) then 1 else 0)"
    if m: "(key, v) \<in> set data" and k: "key \<noteq> ''id''" "key \<in> fst ` set existing" for key v
  proof -
    from m have "(key, clean_value v) \<in> set (clean_data data)"
      by (auto simp: clean_data_mem)
    from change_entries_count [OF d this, of i existing] k show ?thesis
      by simp
  qed
  have sound: "\<forall>e \<in> set ?new. field_name e \<noteq> ''id'' \<and> old_value e \<noteq> new_value e \<and>
            (\<exists>v. (field_name e, v) \<in> set data \<and>
                  old_value e = py_str (col_val existing (field_name e)) \<and>
                  new_value e = py_str (clean_value v))"
  proof
    fix e assume "e \<in> set ?new"
    from change_entries_sound [OF this] show "field_name e \<noteq> ''id'' \<and> old_value e \<noteq> new_value e \<and>
            (\<exists>v. (field_name e, v) \<in> set data \<and>
                  old_value e = py_str (col_val existing (field_name e)) \<and>
                  new_value e = py_str (clean_value v))"
      by (auto simp: clean_data_mem)
  qed
  show "\<exists>new. changelog_rows (snd (save_issue sql_eq now conn data)) = changelog_rows conn @ new \<and>
         (\<forall>(key, v) \<in> set data. key \<noteq> ''id'' \<and> key \<in> fst ` set existing \<longrightarrow>
            length (filter (\<lambda>e. field_name e = key) new) =
              (if py_str (col_val existing key) \<noteq> py_str (clean_value v) then 1 else 0)) \<and>
         (\<forall>e \<in> set new. field_name e \<noteq> ''id'' \<and> old_value e \<noteq> new_value e \<and>
            (\<exists>v. (field_name e, v) \<in> set data \<and>
                  old_value e = py_str (col_val existing (field_name e)) \<and>
                  new_value e = py_str (clean_value v)))"
  proof (intro exI [of _ ?new] conjI)
    show "changelog_rows (snd (save_issue sql_eq now conn data)) = changelog_rows conn @ ?new"
      by (rule rows)
    show "\<forall>(key, v) \<in> set data. key \<noteq> ''id'' \<and> key \<in> fst ` set existing \<longrightarrow>
            length (filter (\<lambda>e. field_name e = key) ?new) =
              (if py_str (col_val existing key) \<noteq> py_str (clean_value v) then 1 else 0)"
      using count by blast
    show "\<forall>e \<in> set ?new. field_name e \<noteq> ''id'' \<and> old_value e \<noteq> new_value e \<and>
            (\<exists>v. (field_name e, v) \<in> set data \<and>
                  old_value e = py_str (col_val existing (field_name e)) \<and>
                  new_value e = py_str (clean_value v))"
      by (rule sound)
  qed
qed

theorem changelog_append_only_witness:
  "distinct (map fst update0) \<and> requested_id update0 = Some (PInt 1) \<and>
   stored_issue (=) tracker0 (PInt 1) =
     Some [(''id'', PInt 1), (''date_reported'', PStr ''2025-07-01''),
           (''line_name'', PStr ''L1''), (''status'', PStr ''Open''),
           (''updated_at'', PStr ''2025-07-01 08:00:00''),
           (''aoi_false'', PInt 0), (''aoi_real'', PInt 0), (''aoi_fixed'', PInt 0),
           (''aoi_suspect'', PInt 0)] \<and>
   (\<exists>new. changelog_rows (snd (save_issue (=) ''2025-07-02 09:00:00'' tracker0 update0)) =
            changelog_rows tracker0 @ new \<and>
          length (filter (\<lambda>e. field_name e = ''status'') new) = 1 \<and>
          length (filter (\<lambda>e. field_name e = ''line_name'') new) = 0)"
proof -
  let ?row = "[(''id'', PInt 1), (''date_reported'', PStr ''2025-07-01''),
           (''line_name'', PStr ''L1''), (''status'', PStr ''Open''),
           (''updated_at'', PStr ''2025-07-01 08:00:00''),
           (''aoi_false'', PInt 0), (''aoi_real'', PInt 0), (''aoi_fixed'', PInt 0),
           (''aoi_suspect'', PInt 0)]"
  have d: "distinct (map fst update0)"
    by (simp add: update0_def)
  have r: "requested_id update0 = Some (PInt 1)"
    by (simp add: requested_id_def clean_data_def update0_def clean_value_def truthy_def)
  have s: "stored_issue (=) tracker0 (PInt 1) = Some ?row"
    by (simp add: stored_issue_def ensure_issues_table_def tracker0_def AOI_COLUMNS_def
        add_column_def issue_rows_def col_val_def)
  from changelog_append_only [where conn = tracker0 and data = update0 and sql_eq = "(=)"
      and now = "''2025-07-02 09:00:00''"] d r s
  obtain new where new:
    "changelog_rows (snd (save_issue (=) ''2025-07-02 09:00:00'' tracker0 update0)) =
       changelog_rows tracker0 @ new"
    "\<forall>(key, v) \<in> set update0. key \<noteq> ''id'' \<and> key \<in> fst ` set ?row \<longrightarrow>
       length (filter (\<lambda>e. field_name e = key) new) =
         (if py_str (col_val ?row key) \<noteq> py_str (clean_value v) then 1 else 0)"
    by blast
  from new(2) have "length (filter (\<lambda>e. field_name e = ''status'') new) = 1"
    by (simp add: update0_def col_val_def py_str_def clean_value_def)
  moreover from new(2) have "length (filter (\<lambda>e. field_name e = ''line_name'') new) = 0"
    by (simp add: update0_def col_val_def py_str_def clean_value_def)
  ultimately show ?thesis
    using d r s new(1) by blast
qed

end
